theory Spec2Isabelle
  imports Complex_Main
begin

section \<open>Python strings\<close>

text \<open>
  A Python \<open>str\<close> is a \<open>string\<close>; the characters are taken to be ASCII. The three
  library operations the module uses on strings are written out: \<open>s.split(sep)\<close> with a
  one-character separator, \<open>sep.join(xs)\<close> and \<open>s.strip()\<close>.
\<close>

text \<open>\<open>s.split(c)\<close>: cut at every occurrence of \<open>c\<close>; the empty string gives \<open>['']\<close>.\<close>

fun str_split :: "char \<Rightarrow> string \<Rightarrow> string list" where
  "str_split c [] = [[]]"
| "str_split c (x # xs) =
     (if x = c then [] # str_split c xs
      else (case str_split c xs of
              [] \<Rightarrow> [[x]]
            | w # ws \<Rightarrow> (x # w) # ws))"

text \<open>\<open>sep.join(xs)\<close>.\<close>

fun str_join :: "string \<Rightarrow> string list \<Rightarrow> string" where
  "str_join sep [] = []"
| "str_join sep [x] = x"
| "str_join sep (x # y # ys) = x @ sep @ str_join sep (y # ys)"

text \<open>
  The ASCII characters for which \<open>str.isspace\<close> holds: tab, line feed, vertical tab, form
  feed, carriage return (9 to 13), the four separators 28 to 31, and the space.
\<close>

definition is_space :: "char \<Rightarrow> bool" where
  "is_space ch = (let n = of_char ch :: nat in (9 \<le> n \<and> n \<le> 13) \<or> (28 \<le> n \<and> n \<le> 32))"

text \<open>\<open>s.strip()\<close>: drop the white space at both ends.\<close>

definition str_strip :: "string \<Rightarrow> string" where
  "str_strip s = rev (dropWhile is_space (rev (dropWhile is_space s)))"

section \<open>CocotbSettings\<close>

datatype resolve_x = VALUE_ERROR | ZEROS | ONES | RANDOM

record cocotb_settings =
  coverage :: bool
  reduced_log_fmt :: bool
  results_xml :: string
  resolve_x :: resolve_x
  testcase :: "string list"
  random_seed :: "int option"
  gpi_extra :: "string list"

text \<open>
  The value the validator \<open>str_to_list\<close> receives for \<open>testcase\<close> and \<open>gpi_extra\<close>
  (it runs before type coercion): a single string or a list of strings.
\<close>

datatype raw_value = RawStr string | RawList "string list"

text \<open>
  \<^verbatim>\<open>
  def str_to_list(cls, value):
      if isinstance(value, str):
          value = [s.strip() for s in value.split(",")]
      return value
  \<close>
\<close>

fun str_to_list :: "raw_value \<Rightarrow> raw_value" where
  "str_to_list (RawStr s) = RawList (map str_strip (str_split CHR '','' s))"
| "str_to_list (RawList xs) = RawList xs"

section \<open>Python values and errors\<close>

text \<open>
  The values stored in the two dictionaries of the module (\<open>Dict[str, Any]\<close>). A float is
  only ever copied here, so it is represented by the rational it denotes.
\<close>

datatype py_value = PyNone | PyBool bool | PyInt int | PyFloat rat | PyStr string

text \<open>
  The exceptions: the two \<open>ValueError\<close>s that \<open>env\<close> raises, with their messages, the
  errors of indexing a value that is empty or \<open>None\<close>, the error of reading a report
  file that is not well formed, and an \<open>OSError\<close> with its \<open>errno\<close>.
\<close>

datatype error = ValueError string | IndexError | TypeError | ParseError string | OSError nat

definition of_opt_str :: "string option \<Rightarrow> py_value" where
  "of_opt_str v = (case v of None \<Rightarrow> PyNone | Some s \<Rightarrow> PyStr s)"

text \<open>Truth value of an optional string: \<open>None\<close> and \<open>""\<close> are false.\<close>

definition truthy_str :: "string option \<Rightarrow> bool" where
  "truthy_str v = (case v of None \<Rightarrow> False | Some s \<Rightarrow> s \<noteq> [])"

section \<open>The platform\<close>

text \<open>
  \<open>os.sep\<close>, \<open>os.pathsep\<close>, \<open>os.path.isabs\<close> and \<open>os.path.join\<close> (two arguments) as they
  are on POSIX, the platform the module is written for.
\<close>

definition os_sep :: char where
  "os_sep = CHR ''/''"

definition os_pathsep :: char where
  "os_pathsep = CHR '':''"

definition isabs :: "string \<Rightarrow> bool" where
  "isabs s = (case s of [] \<Rightarrow> False | x # _ \<Rightarrow> x = os_sep)"

definition path_join :: "string \<Rightarrow> string \<Rightarrow> string" where
  "path_join a b =
     (if isabs b then b
      else if a = [] \<or> last a = os_sep then a @ b
      else a @ [os_sep] @ b)"

section \<open>The design\<close>

text \<open>
  Modelled from the spec: the classes \<open>Design\<close>, \<open>DesignSource\<close>, \<open>SourceType\<close> and the
  class of \<open>tb.cocotb\<close> are declared in \<open>design.py\<close>, which is not among the sources. The
  records hold the fields that \<open>env\<close> reads, typed as the spec's DesignRef gives them. Of
  a source's \<open>file\<close> (here \<open>source_file\<close>, a \<open>pathlib.Path\<close>) the module reads
  \<open>str(file.parent)\<close> and \<open>file.stem\<close>, which are the two fields of \<open>path\<close>.
  \<open>root_path\<close> is the string of \<open>design.root_path\<close>. Of the type tags only the cocotb one
  is named by the module.
\<close>

datatype source_type = Cocotb | OtherType string

record path =
  parent :: string
  stem :: string

record design_source =
  source_file :: path
  src_type :: source_type

record cocotb_testbench =
  cocotb_module :: "string option"
  cocotb_toplevel :: "string option"
  cocotb_testcase :: "string list"

text \<open>\<open>tb.top\<close> is a single string or a sequence of strings, when it is set.\<close>

datatype top_spec = TopStr string | TopSeq "string list"

record tb_settings =
  tb_sources :: "design_source list"
  tb_top :: "top_spec option"
  tb_cocotb :: "cocotb_testbench option"

record rtl_settings =
  rtl_top :: "string option"

record design =
  name :: string
  root_path :: string
  rtl :: rtl_settings
  tb :: tb_settings

text \<open>Truth value of \<open>tb.top\<close>: \<open>None\<close>, \<open>""\<close> and the empty sequence are false.\<close>

fun truthy_top :: "top_spec option \<Rightarrow> bool" where
  "truthy_top None = False"
| "truthy_top (Some (TopStr s)) = (s \<noteq> [])"
| "truthy_top (Some (TopSeq xs)) = (xs \<noteq> [])"

text \<open>
  Modelled from the spec: \<open>Design.sources_of_type\<close> is a method of the absent class; called
  with \<open>rtl=False, tb=True\<close> it gives the testbench's sources that carry the type tag, in
  their order.
\<close>

definition sources_of_type :: "source_type \<Rightarrow> design \<Rightarrow> design_source list" where
  "sources_of_type t design = filter (\<lambda>src. src_type src = t) (tb_sources (tb design))"

section \<open>Cocotb.env\<close>

text \<open>The messages of the two \<open>ValueError\<close>s.\<close>

definition sources_empty_msg :: string where
  "sources_empty_msg =
     [CHR 0x27] @ ''design.tb.cocotb'' @ [CHR 0x27] @ '' is set, but '' @
     [CHR 0x27] @ ''design.tb.sources'' @ [CHR 0x27] @ '' is empty.''"

definition top_missing_msg :: "string \<Rightarrow> string" where
  "top_missing_msg design_name =
     ''[cocotb] In design '' @ design_name @ '': Either '' @
     [CHR 0x60] @ ''tb.top'' @ [CHR 0x60] @ '' or '' @
     [CHR 0x60] @ ''rtl.top'' @ [CHR 0x60] @ '' must be specified.''"

text \<open>
  \<^verbatim>\<open>
  if not design.tb.top:
      if not design.rtl.top:
          raise ValueError(...)
      design.tb.top = (design.rtl.top,)
  \<close>
  The design is returned as the assignment leaves it.
\<close>

definition ensure_tb_top :: "design \<Rightarrow> error + design" where
  "ensure_tb_top design =
     (if \<not> truthy_top (tb_top (tb design)) then
        (case rtl_top (rtl design) of
           None \<Rightarrow> Inl (ValueError (top_missing_msg (name design)))
         | Some r \<Rightarrow>
             if r = [] then Inl (ValueError (top_missing_msg (name design)))
             else Inr (design\<lparr>tb := (tb design)\<lparr>tb_top := Some (TopSeq [r])\<rparr>\<rparr>))
      else Inr design)"

text \<open>
  \<^verbatim>\<open>
  cocotb_sources = design.sources_of_type(SourceType.Cocotb, rtl=False, tb=True)
  if cocotb_sources:
      top_cocotb_source = cocotb_sources[-1].file
  else:
      top_cocotb_source = None
  \<close>
\<close>

definition top_cocotb_source :: "design \<Rightarrow> path option" where
  "top_cocotb_source design =
     (let cocotb_sources = sources_of_type Cocotb design
      in if cocotb_sources \<noteq> [] then Some (source_file (last cocotb_sources)) else None)"

text \<open>
  \<^verbatim>\<open>
  if len(design_module_split) > 1:
      module_path = os.sep.join(design_module_split[:-1])
      if not os.path.isabs(module_path):
          module_path = os.path.join(design.root_path, module_path)
  else:
      module_path = design.root_path
  \<close>
\<close>

definition module_path :: "design \<Rightarrow> string list \<Rightarrow> string" where
  "module_path design design_module_split =
     (if length design_module_split > 1 then
        (let mp = str_join [os_sep] (butlast design_module_split)
         in if \<not> isabs mp then path_join (root_path design) mp else mp)
      else root_path design)"

text \<open>
  \<^verbatim>\<open>
  py_path = []
  current_py_path = os.environ.get("PYTHONPATH")
  if current_py_path:
      py_path += current_py_path.split(os.pathsep)
  coco_module = None
  if design.tb.cocotb.module:
      design_module_split = design.tb.cocotb.module.split("/")
      coco_module = design_module_split[-1]
      ...
      py_path.append(str(module_path))
  elif top_cocotb_source:
      coco_module = top_cocotb_source.stem
  if top_cocotb_source:
      py_path.append(str(top_cocotb_source.parent))
  \<close>
  The two variables that this part of \<open>env\<close> computes are two functions here. First the
  search path \<open>py_path\<close> as it stands when the table is built.
\<close>

definition py_path :: "(string \<rightharpoonup> string) \<Rightarrow> cocotb_testbench \<Rightarrow> design \<Rightarrow> string list" where
  "py_path environ cocotb design =
     (let py_path0 = (case environ ''PYTHONPATH'' of
                        None \<Rightarrow> []
                      | Some current_py_path \<Rightarrow>
                          if current_py_path \<noteq> [] then str_split os_pathsep current_py_path
                          else []);
          py_path1 = (case cocotb_module cocotb of
                        None \<Rightarrow> py_path0
                      | Some m \<Rightarrow>
                          if m \<noteq> [] then
                            py_path0 @ [module_path design (str_split CHR ''/'' m)]
                          else py_path0)
      in (case top_cocotb_source design of
            None \<Rightarrow> py_path1
          | Some src \<Rightarrow> py_path1 @ [parent src]))"

text \<open>
  Then \<open>coco_module\<close>: the last segment of \<open>tb.cocotb.module\<close> when that is set and not
  empty, else the stem of the top cocotb source when there is one, else \<open>None\<close>.
\<close>

definition coco_module :: "cocotb_testbench \<Rightarrow> design \<Rightarrow> string option" where
  "coco_module cocotb design =
     (if truthy_str (cocotb_module cocotb) then
        (case cocotb_module cocotb of
           None \<Rightarrow> None
         | Some m \<Rightarrow> Some (last (str_split CHR ''/'' m)))
      else (case top_cocotb_source design of
              None \<Rightarrow> None
            | Some src \<Rightarrow> Some (stem src)))"

text \<open>\<open>design.tb.top if isinstance(design.tb.top, str) else design.tb.top[0]\<close>\<close>

fun top_first :: "top_spec option \<Rightarrow> error + string" where
  "top_first None = Inl TypeError"
| "top_first (Some (TopStr s)) = Inr s"
| "top_first (Some (TopSeq [])) = Inl IndexError"
| "top_first (Some (TopSeq (x # xs))) = Inr x"

text \<open>
  \<^verbatim>\<open>
  toplevel = design.tb.cocotb.toplevel
  if not toplevel and design.tb.top:
      toplevel = design.tb.top if isinstance(design.tb.top, str) else design.tb.top[0]
  \<close>
\<close>

definition toplevel :: "cocotb_testbench \<Rightarrow> design \<Rightarrow> error + string option" where
  "toplevel cocotb design =
     (if \<not> truthy_str (cocotb_toplevel cocotb) \<and> truthy_top (tb_top (tb design)) then
        (case top_first (tb_top (tb design)) of
           Inl e \<Rightarrow> Inl e
         | Inr s \<Rightarrow> Inr (Some s))
      else Inr (cocotb_toplevel cocotb))"

fun resolve_x_str :: "resolve_x \<Rightarrow> string" where
  "resolve_x_str VALUE_ERROR = ''VALUE_ERROR''"
| "resolve_x_str ZEROS = ''ZEROS''"
| "resolve_x_str ONES = ''ONES''"
| "resolve_x_str RANDOM = ''RANDOM''"

text \<open>
  The dictionary \<open>ret\<close> of \<open>env\<close>, from the literal to the last conditional entry, for
  the design as the fallback assignment left it.
\<close>

definition env_table ::
  "cocotb_settings \<Rightarrow> (string \<rightharpoonup> string) \<Rightarrow> cocotb_testbench \<Rightarrow> design \<Rightarrow>
   error + (string \<rightharpoonup> py_value)" where
  "env_table self environ cocotb design =
     (case toplevel cocotb design of
        Inl e \<Rightarrow> Inl e
      | Inr tplvl \<Rightarrow>
          (let ret0 = [''MODULE'' \<mapsto> of_opt_str (coco_module cocotb design),
                       ''TOPLEVEL'' \<mapsto> of_opt_str tplvl,
                       ''COCOTB_REDUCED_LOG_FMT'' \<mapsto> PyInt (if reduced_log_fmt self then 1 else 0),
                       ''PYTHONPATH'' \<mapsto> PyStr (str_join [os_pathsep] (py_path environ cocotb design)),
                       ''COCOTB_RESULTS_FILE'' \<mapsto> PyStr (results_xml self),
                       ''COCOTB_RESOLVE_X'' \<mapsto> PyStr (resolve_x_str (resolve_x self))];
               ret1 = (if coverage self then ret0(''COVERAGE'' \<mapsto> PyInt 1) else ret0);
               testcases = (if testcase self \<noteq> [] then testcase self
                            else cocotb_testcase cocotb);
               ret2 = (if testcases \<noteq> [] then ret1(''TESTCASE'' \<mapsto> PyStr (str_join '','' testcases))
                       else ret1);
               ret3 = (case random_seed self of
                         None \<Rightarrow> ret2
                       | Some seed \<Rightarrow> ret2(''RANDOM_SEED'' \<mapsto> PyInt seed))
           in Inr (if gpi_extra self \<noteq> []
                   then ret3(''GPI_EXTRA'' \<mapsto> PyStr (str_join '','' (gpi_extra self)))
                   else ret3)))"

text \<open>
  \<^verbatim>\<open>
  def env(self, design):
      ret = {}
      if design.tb.cocotb:
          if design.tb is None or not design.tb.sources:
              raise ValueError(...)
          ...
      return ret
  \<close>
  The arguments are the settings (\<open>self\<close>), the process environment and the design. The
  result is the design as the call leaves it, together with the exception raised or the
  dictionary returned. The settings and the process environment are only read. An object
  \<open>tb.cocotb\<close> is true whenever it is not \<open>None\<close>, and \<open>design.tb\<close> is not \<open>None\<close> where that
  is tested, since \<open>design.tb.cocotb\<close> has been read before. Logging is left out.
\<close>

definition env ::
  "cocotb_settings \<Rightarrow> (string \<rightharpoonup> string) \<Rightarrow> design \<Rightarrow>
   design \<times> (error + (string \<rightharpoonup> py_value))" where
  "env self environ design =
     (case tb_cocotb (tb design) of
        None \<Rightarrow> (design, Inr Map.empty)
      | Some cocotb \<Rightarrow>
          if tb_sources (tb design) = [] then (design, Inl (ValueError sources_empty_msg))
          else (case ensure_tb_top design of
                  Inl e \<Rightarrow> (design, Inl e)
                | Inr design' \<Rightarrow> (design', env_table self environ cocotb design')))"

section \<open>The test report\<close>

text \<open>
  Modelled from the spec: the report class \<open>JUnitXml\<close> belongs to the library junitparser,
  which is not among the sources. A report is a sequence of test suites together with its
  own aggregate counters \<open>tests\<close>, \<open>errors\<close>, \<open>failures\<close>, \<open>skipped\<close> and \<open>time\<close>; entries
  of a report and of a suite may be absent. The counters are Python integers, read from
  the attributes of the report file, so a file can give them any sign.
\<close>

record test_case =
  case_name :: string
  case_classname :: string
  case_result :: string
  case_time :: "rat option"

record test_suite =
  suite_tests :: int
  suite_errors :: int
  suite_failures :: int
  suite_skipped :: int
  suite_time :: rat
  cases :: "test_case option list"

record junit_xml =
  suites :: "test_suite option list"
  tests :: int
  errors :: int
  failures :: int
  skipped :: int
  time :: rat

text \<open>
  Modelled from the spec: \<open>JUnitXml()\<close>, the report made without a file, has no suite and
  all its counters are zero.
\<close>

definition JUnitXml :: junit_xml where
  "JUnitXml = \<lparr>suites = [], tests = 0, errors = 0, failures = 0, skipped = 0, time = 0\<rparr>"

text \<open>
  The file system, as \<open>Path.exists\<close> sees it: the outcome of \<open>os.stat\<close> at a path, which
  succeeds, raises an \<open>OSError\<close> with an \<open>errno\<close>, or raises a \<open>ValueError\<close> (a path that
  the system call cannot take). The numbers are those of Linux.
\<close>

datatype stat_result = StatOk | StatOSError nat | StatValueError

definition ENOENT :: nat where
  "ENOENT = 2"

definition EBADF :: nat where
  "EBADF = 9"

definition ENOTDIR :: nat where
  "ENOTDIR = 20"

definition ENAMETOOLONG :: nat where
  "ENAMETOOLONG = 36"

definition ELOOP :: nat where
  "ELOOP = 40"

text \<open>
  \<open>Path.exists\<close> of pathlib, as Python 3.11 has it:
  \<^verbatim>\<open>
  _IGNORED_ERRNOS = (ENOENT, ENOTDIR, EBADF, ELOOP)

  def exists(self):
      try:
          self.stat()
      except OSError as e:
          if not _ignore_error(e):
              raise
          return False
      except ValueError:
          return False
      return True
  \<close>
\<close>

definition ignore_error :: "nat \<Rightarrow> bool" where
  "ignore_error errno =
     (errno = ENOENT \<or> errno = ENOTDIR \<or> errno = EBADF \<or> errno = ELOOP)"

definition path_exists :: "(string \<Rightarrow> stat_result) \<Rightarrow> string \<Rightarrow> error + bool" where
  "path_exists stat p =
     (case stat p of
        StatOk \<Rightarrow> Inr True
      | StatOSError errno \<Rightarrow> if \<not> ignore_error errno then Inl (OSError errno) else Inr False
      | StatValueError \<Rightarrow> Inr False)"

text \<open>
  \<^verbatim>\<open>
  def _results(self):
      results_xml = self.results_xml
      if not Path(results_xml).exists():
          return JUnitXml()
      return JUnitXml.fromfile(results_xml)
  \<close>
  \<open>fromfile\<close> is the library's parser, which gives a report or raises. The property
  \<open>results\<close> returns the same value.
\<close>

definition results ::
  "(string \<Rightarrow> stat_result) \<Rightarrow> (string \<Rightarrow> error + junit_xml) \<Rightarrow> cocotb_settings \<Rightarrow>
   error + junit_xml" where
  "results stat fromfile self =
     (case path_exists stat (results_xml self) of
        Inl e \<Rightarrow> Inl e
      | Inr found \<Rightarrow>
          if \<not> found then Inr JUnitXml
          else fromfile (results_xml self))"

text \<open>
  \<^verbatim>\<open>
  def add_results(self, flow_results, prefix="cocotb."):
      xml = self.results
      flow_results[prefix + "tests"] = xml.tests
      flow_results[prefix + "errors"] = xml.errors
      flow_results[prefix + "failures"] = xml.failures
      flow_results[prefix + "skipped"] = xml.skipped
      flow_results[prefix + "time"] = xml.time
      failed = False
      if not xml.tests:
          failed = True
      if xml.errors:
          failed = True
      if xml.failures:
          failed = True
      if failed:
          flow_results["success"] = False
      return not failed
  \<close>
  The first argument is the report \<open>self.results\<close>. The result is the dictionary
  \<open>flow_results\<close> as the call leaves it, and the value returned. An integer is true when
  it is not zero. Logging is left out.
\<close>

definition add_results ::
  "junit_xml \<Rightarrow> (string \<rightharpoonup> py_value) \<Rightarrow> string \<Rightarrow> (string \<rightharpoonup> py_value) \<times> bool" where
  "add_results xml flow_results prefix =
     (let fr1 = flow_results(prefix @ ''tests'' \<mapsto> PyInt (tests xml));
          fr2 = fr1(prefix @ ''errors'' \<mapsto> PyInt (errors xml));
          fr3 = fr2(prefix @ ''failures'' \<mapsto> PyInt (failures xml));
          fr4 = fr3(prefix @ ''skipped'' \<mapsto> PyInt (skipped xml));
          fr5 = fr4(prefix @ ''time'' \<mapsto> PyFloat (time xml));
          failed0 = False;
          failed1 = (if tests xml = 0 then True else failed0);
          failed2 = (if errors xml \<noteq> 0 then True else failed1);
          failed3 = (if failures xml \<noteq> 0 then True else failed2)
      in (if failed3 then fr5(''success'' \<mapsto> PyBool False) else fr5, \<not> failed3))"

text \<open>\<open>Cocotb.add_results\<close> from the settings: the report is loaded first.\<close>

definition add_results_self ::
  "(string \<Rightarrow> stat_result) \<Rightarrow> (string \<Rightarrow> error + junit_xml) \<Rightarrow> cocotb_settings \<Rightarrow>
   (string \<rightharpoonup> py_value) \<Rightarrow> string \<Rightarrow> error + ((string \<rightharpoonup> py_value) \<times> bool)" where
  "add_results_self stat fromfile self flow_results prefix =
     (case results stat fromfile self of
        Inl e \<Rightarrow> Inl e
      | Inr xml \<Rightarrow> Inr (add_results xml flow_results prefix))"

section \<open>Example inputs\<close>

text \<open>The settings with all their defaults.\<close>

definition default_settings :: cocotb_settings where
  "default_settings =
     \<lparr>coverage = False, reduced_log_fmt = True, results_xml = ''results.xml'',
      resolve_x = VALUE_ERROR, testcase = [], random_seed = None, gpi_extra = []\<rparr>"

definition tb_v :: design_source where
  "tb_v = \<lparr>source_file = \<lparr>parent = ''/r/tb'', stem = ''tb_top''\<rparr>, src_type = OtherType ''verilog''\<rparr>"

definition test_a_py :: design_source where
  "test_a_py = \<lparr>source_file = \<lparr>parent = ''/r/tests'', stem = ''test_a''\<rparr>, src_type = Cocotb\<rparr>"

definition test_b_py :: design_source where
  "test_b_py = \<lparr>source_file = \<lparr>parent = ''/r/cocotb'', stem = ''test_b''\<rparr>, src_type = Cocotb\<rparr>"

definition no_cocotb :: cocotb_testbench where
  "no_cocotb = \<lparr>cocotb_module = None, cocotb_toplevel = None, cocotb_testcase = []\<rparr>"

text \<open>A design made of the parts that the examples vary.\<close>

definition mk_design ::
  "string option \<Rightarrow> design_source list \<Rightarrow> top_spec option \<Rightarrow> cocotb_testbench option \<Rightarrow>
   design" where
  "mk_design r srcs t c =
     \<lparr>name = ''d'', root_path = ''/r'', rtl = \<lparr>rtl_top = r\<rparr>,
      tb = \<lparr>tb_sources = srcs, tb_top = t, tb_cocotb = c\<rparr>\<rparr>"

section \<open>The spec's notions\<close>

text \<open>
  The precedence of the spec for the toplevel, in its words: the explicit
  \<open>tb.cocotb.toplevel\<close> if set; else the first element of \<open>tb.top\<close> (or \<open>tb.top\<close>
  itself when it is a single string); else \<open>rtlTop\<close>; and none when none of the three is
  available. Set means true in Python: neither \<open>None\<close> nor empty.
\<close>

definition toplevel_precedence :: "string option \<Rightarrow> top_spec option \<Rightarrow> string option \<Rightarrow> string option" where
  "toplevel_precedence explicit tp rtlTop =
     (if truthy_str explicit then explicit
      else if truthy_top tp then
        (case tp of
           None \<Rightarrow> None
         | Some (TopStr s) \<Rightarrow> Some s
         | Some (TopSeq xs) \<Rightarrow> (case xs of [] \<Rightarrow> None | x # _ \<Rightarrow> Some x))
      else if truthy_str rtlTop then rtlTop
      else None)"

text \<open>
  The top cocotb source of the spec, in its words: the last entry of the testbench's
  sources whose type tag is cocotb.
\<close>

definition last_cocotb_source :: "design_source list \<Rightarrow> design_source option" where
  "last_cocotb_source srcs = find (\<lambda>src. src_type src = Cocotb) (rev srcs)"

section \<open>More example inputs\<close>

text \<open>Designs that request cocotb, with a Verilog testbench as their only source.\<close>

definition dut_only :: design where
  "dut_only = mk_design None [tb_v] None (Some (no_cocotb\<lparr>cocotb_toplevel := Some ''dut''\<rparr>))"

definition rtl_fallback :: design where
  "rtl_fallback = mk_design (Some ''top'') [tb_v] None (Some (no_cocotb\<lparr>cocotb_toplevel := Some ''dut''\<rparr>))"

definition rtl_only :: design where
  "rtl_only = mk_design (Some ''top'') [tb_v] None (Some no_cocotb)"

definition no_top :: design where
  "no_top = mk_design None [tb_v] None (Some no_cocotb)"

text \<open>Designs with two cocotb sources around the Verilog testbench.\<close>

definition pkg_mod :: cocotb_testbench where
  "pkg_mod = no_cocotb\<lparr>cocotb_module := Some ''pkg/mod''\<rparr>"

definition pkg_mod_design :: design where
  "pkg_mod_design = mk_design (Some ''top'') [test_a_py, tb_v, test_b_py] None (Some pkg_mod)"

definition stem_design :: design where
  "stem_design = mk_design (Some ''top'') [test_a_py, tb_v, test_b_py] None (Some no_cocotb)"

text \<open>The tables that \<open>env\<close> returns for these two designs under the default settings.\<close>

definition pkg_mod_table :: "string \<rightharpoonup> py_value" where
  "pkg_mod_table =
     [''MODULE'' \<mapsto> PyStr ''mod'', ''TOPLEVEL'' \<mapsto> PyStr ''top'',
      ''COCOTB_REDUCED_LOG_FMT'' \<mapsto> PyInt 1,
      ''PYTHONPATH'' \<mapsto> PyStr ''/r/pkg:/r/cocotb'',
      ''COCOTB_RESULTS_FILE'' \<mapsto> PyStr ''results.xml'',
      ''COCOTB_RESOLVE_X'' \<mapsto> PyStr ''VALUE_ERROR'']"

definition stem_table :: "string \<rightharpoonup> py_value" where
  "stem_table =
     [''MODULE'' \<mapsto> PyStr ''test_b'', ''TOPLEVEL'' \<mapsto> PyStr ''top'',
      ''COCOTB_REDUCED_LOG_FMT'' \<mapsto> PyInt 1,
      ''PYTHONPATH'' \<mapsto> PyStr ''/a:/b:/r/cocotb'',
      ''COCOTB_RESULTS_FILE'' \<mapsto> PyStr ''results.xml'',
      ''COCOTB_RESOLVE_X'' \<mapsto> PyStr ''VALUE_ERROR'']"

text \<open>Three reports; the last has a negative counter.\<close>

definition passing_report :: junit_xml where
  "passing_report = \<lparr>suites = [], tests = 10, errors = 0, failures = 0, skipped = 2, time = 3 / 2\<rparr>"

definition erroring_report :: junit_xml where
  "erroring_report = \<lparr>suites = [], tests = 5, errors = 1, failures = 0, skipped = 0, time = 1\<rparr>"

definition negative_report :: junit_xml where
  "negative_report = \<lparr>suites = [], tests = 1, errors = - 1, failures = 0, skipped = 0, time = 0\<rparr>"

text \<open>
  A directory without any file: \<open>os.stat\<close> fails at every path, with \<open>ENAMETOOLONG\<close> for a
  name of more than 255 characters and with \<open>ENOENT\<close> otherwise. The second settings name
  a results file of 256 characters. The parser is never to succeed.
\<close>

definition empty_dir_stat :: "string \<Rightarrow> stat_result" where
  "empty_dir_stat p = (if length p > 255 then StatOSError ENAMETOOLONG else StatOSError ENOENT)"

definition long_name_settings :: cocotb_settings where
  "long_name_settings = default_settings\<lparr>results_xml := replicate 252 CHR ''a'' @ ''.xml''\<rparr>"

definition no_parser :: "string \<Rightarrow> error + junit_xml" where
  "no_parser p = Inl (ParseError ''unreadable'')"

section \<open>Properties of the string operations\<close>

lemma str_split_nonempty: "str_split c s \<noteq> []"
  by (induction s) (auto split: list.splits)

lemma str_join_Cons: "ys \<noteq> [] \<Longrightarrow> str_join sep (x # ys) = x @ sep @ str_join sep ys"
  by (cases ys) auto

lemma str_join_split: "str_join [c] (str_split c s) = s"
proof (induction s)
  case Nil
  show ?case by simp
next
  case (Cons x xs)
  show ?case
  proof (cases "x = c")
    case True
    with Cons show ?thesis by (simp add: str_join_Cons str_split_nonempty)
  next
    case False
    obtain w ws where sp: "str_split c xs = w # ws"
      using str_split_nonempty [of c xs] by (cases "str_split c xs") auto
    have "str_join [c] ((x # w) # ws) = x # str_join [c] (w # ws)"
      by (cases ws) auto
    with Cons False sp show ?thesis by simp
  qed
qed

lemma str_split_no_sep: "w \<in> set (str_split c s) \<Longrightarrow> c \<notin> set w"
  by (induction s arbitrary: w) (auto split: if_splits list.splits)

lemma str_split_length: "length (str_split c s) = Suc (length (filter (\<lambda>x. x = c) s))"
  by (induction s) (auto split: list.splits simp: str_split_nonempty)

lemma rev_dropWhile_rev: "rev (dropWhile P (rev t)) @ rev (takeWhile P (rev t)) = t"
  by (metis rev_append rev_rev_ident takeWhile_dropWhile_id)

lemma str_strip_decomp:
  "\<exists>pre post. s = pre @ str_strip s @ post \<and>
     (\<forall>x\<in>set pre. is_space x) \<and> (\<forall>x\<in>set post. is_space x)"
proof -
  let ?t = "dropWhile is_space s"
  have 1: "s = takeWhile is_space s @ ?t" by simp
  have 2: "?t = str_strip s @ rev (takeWhile is_space (rev ?t))"
    unfolding str_strip_def by (simp only: rev_dropWhile_rev)
  have 3: "\<forall>x\<in>set (takeWhile is_space s). is_space x"
    by (auto dest: set_takeWhileD)
  have 4: "\<forall>x\<in>set (rev (takeWhile is_space (rev ?t))). is_space x"
    by (auto dest: set_takeWhileD)
  from 1 2 3 4 show ?thesis by metis
qed

lemma str_strip_no_leading: "str_strip s = x # xs \<Longrightarrow> \<not> is_space x"
proof -
  assume a: "str_strip s = x # xs"
  let ?t = "dropWhile is_space s"
  have "?t = str_strip s @ rev (takeWhile is_space (rev ?t))"
    unfolding str_strip_def by (simp only: rev_dropWhile_rev)
  with a have "hd ?t = x" "?t \<noteq> []"
    by (metis append_Cons list.sel(1), metis append_Cons list.distinct(1))
  then show ?thesis using hd_dropWhile [of is_space s] by auto
qed

lemma str_strip_no_trailing: "str_strip s \<noteq> [] \<Longrightarrow> \<not> is_space (last (str_strip s))"
  unfolding str_strip_def by (simp add: last_rev hd_dropWhile)

lemma str_join_snoc: "xs \<noteq> [] \<Longrightarrow> str_join sep (xs @ [y]) = str_join sep xs @ sep @ y"
  by (induction sep xs rule: str_join.induct) auto

lemma str_join_append:
  "xs \<noteq> [] \<Longrightarrow> ys \<noteq> [] \<Longrightarrow> str_join sep (xs @ ys) = str_join sep xs @ sep @ str_join sep ys"
  by (induction sep xs rule: str_join.induct) (auto simp add: str_join_Cons)

lemma str_split_dir_name:
  assumes "length (str_split c m) > 1"
  shows "str_join [c] (butlast (str_split c m)) @ [c] @ last (str_split c m) = m"
proof -
  let ?segs = "str_split c m"
  have ne: "?segs \<noteq> []" by (rule str_split_nonempty)
  from assms have b: "butlast ?segs \<noteq> []"
    by (cases ?segs) (auto split: if_splits)
  have "str_join [c] (butlast ?segs @ [last ?segs]) = m"
    using ne by (simp add: str_join_split)
  with b show ?thesis by (simp add: str_join_snoc)
qed

lemma last_str_split_no_sep: "c \<notin> set (last (str_split c m))"
  using str_split_no_sep [of "last (str_split c m)" c m] str_split_nonempty [of c m] by simp

lemma str_join_split_prefix:
  "cur \<noteq> [] \<Longrightarrow> \<exists>rest. str_join [c] (str_split c cur @ ys) = cur @ rest"
proof (cases "ys = []")
  case True
  then show ?thesis by (simp add: str_join_split)
next
  case False
  then show ?thesis
    by (simp add: str_join_append str_split_nonempty str_join_split)
qed

section \<open>Normalisation of testcase and gpi_extra\<close>

text \<open>
  C5. A setting given as a comma-separated string is split on the commas and every segment
  is stripped of the white space around it, so \<open>"a, b,c"\<close> becomes \<open>["a", "b", "c"]\<close>; a
  setting given as a sequence is returned as it is; and normalising twice is the same as
  normalising once.
\<close>

theorem str_to_list_normalizes:
  "str_to_list (RawStr s) = RawList (map str_strip (str_split CHR '','' s)) \<and>
   str_to_list (RawStr ''a, b,c'') = RawList [''a'', ''b'', ''c''] \<and>
   str_to_list (RawList xs) = RawList xs \<and>
   str_to_list (str_to_list v) = str_to_list v"
  by (cases v) (simp_all add: str_strip_def is_space_def)

section \<open>The steps of env\<close>

lemma ensure_tb_top_truthy: "truthy_top (tb_top (tb d)) \<Longrightarrow> ensure_tb_top d = Inr d"
  by (simp add: ensure_tb_top_def)

lemma ensure_tb_top_fallback:
  "\<not> truthy_top (tb_top (tb d)) \<Longrightarrow> rtl_top (rtl d) = Some r \<Longrightarrow> r \<noteq> [] \<Longrightarrow>
   ensure_tb_top d = Inr (d\<lparr>tb := (tb d)\<lparr>tb_top := Some (TopSeq [r])\<rparr>\<rparr>)"
  by (simp add: ensure_tb_top_def)

lemma ensure_tb_top_fail:
  "\<not> truthy_top (tb_top (tb d)) \<Longrightarrow> \<not> truthy_str (rtl_top (rtl d)) \<Longrightarrow>
   ensure_tb_top d = Inl (ValueError (top_missing_msg (name d)))"
  by (simp add: ensure_tb_top_def truthy_str_def split: option.splits)

lemma ensure_tb_top_Inr:
  "ensure_tb_top d = Inr d' \<Longrightarrow>
   truthy_top (tb_top (tb d')) \<and> name d' = name d \<and> root_path d' = root_path d \<and>
   rtl d' = rtl d \<and> tb_sources (tb d') = tb_sources (tb d) \<and>
   tb_cocotb (tb d') = tb_cocotb (tb d)"
  by (auto simp add: ensure_tb_top_def split: if_splits option.splits)

lemma toplevel_truthy:
  "truthy_top (tb_top (tb d)) \<Longrightarrow>
   toplevel c d = Inr (toplevel_precedence (cocotb_toplevel c) (tb_top (tb d)) r)"
  by (cases "tb_top (tb d)" rule: top_first.cases)
     (auto simp add: toplevel_def toplevel_precedence_def)

lemma toplevel_precedence_Some:
  "truthy_top tp \<or> truthy_str r \<Longrightarrow> \<exists>s. toplevel_precedence e tp r = Some s"
  by (cases tp rule: top_first.cases)
     (auto simp add: toplevel_precedence_def truthy_str_def split: option.splits list.splits)

lemma toplevel_precedence_fallback:
  "\<not> truthy_top tp \<Longrightarrow> r \<noteq> [] \<Longrightarrow>
   toplevel_precedence e (Some (TopSeq [r])) x = toplevel_precedence e tp (Some r)"
  by (simp add: toplevel_precedence_def truthy_str_def)

lemma env_table_MODULE:
  "env_table self environ c d = Inr t \<Longrightarrow> t ''MODULE'' = Some (of_opt_str (coco_module c d))"
  by (auto simp add: env_table_def Let_def split: sum.splits option.splits if_splits)

lemma env_table_TOPLEVEL:
  "env_table self environ c d = Inr t \<Longrightarrow>
   \<exists>v. toplevel c d = Inr v \<and> t ''TOPLEVEL'' = Some (of_opt_str v)"
  by (auto simp add: env_table_def Let_def split: sum.splits option.splits if_splits)

lemma env_table_PYTHONPATH:
  "env_table self environ c d = Inr t \<Longrightarrow>
   t ''PYTHONPATH'' = Some (PyStr (str_join [os_pathsep] (py_path environ c d)))"
  by (auto simp add: env_table_def Let_def split: sum.splits option.splits if_splits)

lemma env_table_Inr: "toplevel c d = Inr v \<Longrightarrow> \<exists>t. env_table self environ c d = Inr t"
  by (simp add: env_table_def Let_def)

lemma env_table_toplevel:
  assumes "truthy_top (tb_top (tb d))"
  shows "\<exists>t. env_table self environ c d = Inr t \<and>
             t ''TOPLEVEL'' = Some (of_opt_str (toplevel_precedence (cocotb_toplevel c) (tb_top (tb d)) r))"
proof -
  have tl: "toplevel c d = Inr (toplevel_precedence (cocotb_toplevel c) (tb_top (tb d)) r)"
    using assms by (rule toplevel_truthy)
  then obtain t where t: "env_table self environ c d = Inr t"
    using env_table_Inr by blast
  with env_table_TOPLEVEL [OF t] tl show ?thesis by auto
qed

lemma env_fail_top:
  assumes "tb_cocotb (tb d) = Some c" and "tb_sources (tb d) \<noteq> []"
    and "\<not> truthy_top (tb_top (tb d))" and "\<not> truthy_str (rtl_top (rtl d))"
  shows "env self environ d = (d, Inl (ValueError (top_missing_msg (name d))))"
  using assms by (simp add: env_def ensure_tb_top_fail)

lemma env_success_top:
  assumes c: "tb_cocotb (tb d) = Some c" and s: "tb_sources (tb d) \<noteq> []"
    and t: "truthy_top (tb_top (tb d))"
  shows "env self environ d = (d, env_table self environ c d)"
  using assms by (simp add: env_def ensure_tb_top_truthy)

lemma env_success_fallback:
  assumes c: "tb_cocotb (tb d) = Some c" and s: "tb_sources (tb d) \<noteq> []"
    and t: "\<not> truthy_top (tb_top (tb d))" and r: "rtl_top (rtl d) = Some r" "r \<noteq> []"
  shows "env self environ d =
          (d\<lparr>tb := (tb d)\<lparr>tb_top := Some (TopSeq [r])\<rparr>\<rparr>,
           env_table self environ c (d\<lparr>tb := (tb d)\<lparr>tb_top := Some (TopSeq [r])\<rparr>\<rparr>))"
  using assms by (simp add: env_def ensure_tb_top_fallback)

lemma env_fst:
  "fst (env self environ d) =
     (if tb_cocotb (tb d) \<noteq> None \<and> tb_sources (tb d) \<noteq> [] \<and>
         \<not> truthy_top (tb_top (tb d)) \<and> truthy_str (rtl_top (rtl d))
      then d\<lparr>tb := (tb d)\<lparr>tb_top := map_option (\<lambda>r. TopSeq [r]) (rtl_top (rtl d))\<rparr>\<rparr>
      else d)"
proof (cases "tb_cocotb (tb d)")
  case None
  then show ?thesis by (simp add: env_def)
next
  case (Some c)
  show ?thesis
  proof (cases "tb_sources (tb d) = []")
    case True
    with Some show ?thesis by (simp add: env_def)
  next
    case False
    show ?thesis
    proof (cases "truthy_top (tb_top (tb d))")
      case True
      with Some False show ?thesis by (simp add: env_success_top)
    next
      case nt: False
      show ?thesis
      proof (cases "truthy_str (rtl_top (rtl d))")
        case True
        then obtain r where r: "rtl_top (rtl d) = Some r" "r \<noteq> []"
          by (auto simp add: truthy_str_def split: option.splits)
        with Some False nt True show ?thesis by (simp add: env_success_fallback)
      next
        case nr: False
        with Some False nt show ?thesis by (simp add: env_fail_top)
      qed
    qed
  qed
qed

lemma env_Inr:
  assumes "env self environ d = (d', Inr t)" and "tb_cocotb (tb d) = Some c"
  shows "ensure_tb_top d = Inr d' \<and> env_table self environ c d' = Inr t"
  using assms by (auto simp add: env_def split: if_splits sum.splits)

lemma env_succeeds:
  assumes c: "tb_cocotb (tb d) = Some c" and s: "tb_sources (tb d) \<noteq> []"
    and a: "truthy_top (tb_top (tb d)) \<or> truthy_str (rtl_top (rtl d))"
  shows "\<exists>t. snd (env self environ d) = Inr t"
proof (cases "truthy_top (tb_top (tb d))")
  case True
  with env_table_toplevel [OF True, of self environ c] c s show ?thesis
    by (auto simp add: env_success_top)
next
  case False
  with a obtain r where r: "rtl_top (rtl d) = Some r" "r \<noteq> []"
    by (auto simp add: truthy_str_def split: option.splits)
  let ?d = "d\<lparr>tb := (tb d)\<lparr>tb_top := Some (TopSeq [r])\<rparr>\<rparr>"
  have tt: "truthy_top (tb_top (tb ?d))" by simp
  from env_table_toplevel [OF tt, of self environ c] False r c s show ?thesis
    by (auto simp add: env_success_fallback)
qed

text \<open>
  The search path and the module name depend on the design through \<open>root_path\<close> and
  \<open>tb.sources\<close> only, so the fallback assignment to \<open>tb.top\<close> does not change them.
\<close>

lemma top_cocotb_source_cong:
  "tb_sources (tb d') = tb_sources (tb d) \<Longrightarrow> top_cocotb_source d' = top_cocotb_source d"
  by (simp add: top_cocotb_source_def sources_of_type_def)

lemma module_path_cong:
  "root_path d' = root_path d \<Longrightarrow> module_path d' segs = module_path d segs"
  by (simp only: module_path_def)

lemma py_path_cong:
  assumes r: "root_path d' = root_path d" and s: "tb_sources (tb d') = tb_sources (tb d)"
  shows "py_path environ c d' = py_path environ c d"
  unfolding py_path_def
  by (simp only: module_path_cong [OF r] top_cocotb_source_cong [OF s])

lemma coco_module_cong:
  assumes s: "tb_sources (tb d') = tb_sources (tb d)"
  shows "coco_module c d' = coco_module c d"
  unfolding coco_module_def
  by (simp only: top_cocotb_source_cong [OF s])

lemma env_Inr_table:
  assumes "env self environ d = (d', Inr t)" and "tb_cocotb (tb d) = Some c"
  shows "t ''MODULE'' = Some (of_opt_str (coco_module c d)) \<and>
         t ''PYTHONPATH'' = Some (PyStr (str_join [os_pathsep] (py_path environ c d)))"
proof -
  from env_Inr [OF assms] have e: "ensure_tb_top d = Inr d'"
    and t: "env_table self environ c d' = Inr t" by simp_all
  from ensure_tb_top_Inr [OF e] have r: "root_path d' = root_path d"
    and s: "tb_sources (tb d') = tb_sources (tb d)" by simp_all
  have "py_path environ c d' = py_path environ c d"
    using r s by (rule py_path_cong)
  moreover have "coco_module c d' = coco_module c d"
    using s by (rule coco_module_cong)
  ultimately show ?thesis
    using env_table_MODULE [OF t] env_table_PYTHONPATH [OF t] by simp
qed

lemma module_path_in_py_path:
  "cocotb_module c = Some m \<Longrightarrow> m \<noteq> [] \<Longrightarrow>
   module_path d (str_split CHR ''/'' m) \<in> set (py_path environ c d)"
  by (simp add: py_path_def Let_def split: option.splits)

text \<open>The code's top cocotb source is the spec's.\<close>

lemma last_cocotb_source_snoc:
  "last_cocotb_source (srcs @ [x]) =
     (if src_type x = Cocotb then Some x else last_cocotb_source srcs)"
  by (simp add: last_cocotb_source_def)

lemma last_cocotb_source_filter:
  "last_cocotb_source srcs =
     (if filter (\<lambda>src. src_type src = Cocotb) srcs = [] then None
      else Some (last (filter (\<lambda>src. src_type src = Cocotb) srcs)))"
  by (induction srcs rule: rev_induct) (simp_all add: last_cocotb_source_snoc last_cocotb_source_def)

lemma last_cocotb_source_Some:
  "last_cocotb_source srcs = Some s \<longleftrightarrow>
     (\<exists>pre post. srcs = pre @ s # post \<and> src_type s = Cocotb \<and>
        (\<forall>x\<in>set post. src_type x \<noteq> Cocotb))"
proof (induction srcs rule: rev_induct)
  case Nil
  show ?case by (simp add: last_cocotb_source_def)
next
  case (snoc x xs)
  show ?case
  proof (cases "src_type x = Cocotb")
    case True
    have "(\<exists>pre post. xs @ [x] = pre @ s # post \<and> src_type s = Cocotb \<and>
        (\<forall>y\<in>set post. src_type y \<noteq> Cocotb)) \<longleftrightarrow> x = s"
    proof
      assume "\<exists>pre post. xs @ [x] = pre @ s # post \<and> src_type s = Cocotb \<and>
        (\<forall>y\<in>set post. src_type y \<noteq> Cocotb)"
      then obtain pre post where p: "xs @ [x] = pre @ s # post"
        "\<forall>y\<in>set post. src_type y \<noteq> Cocotb" by blast
      show "x = s"
      proof (cases post rule: rev_cases)
        case Nil
        with p show ?thesis by simp
      next
        case (snoc ys y)
        with p have "x = y" by (metis append_Cons append_assoc snoc_eq_iff_butlast)
        with snoc p True show ?thesis by simp
      qed
    next
      assume "x = s"
      with True show "\<exists>pre post. xs @ [x] = pre @ s # post \<and> src_type s = Cocotb \<and>
        (\<forall>y\<in>set post. src_type y \<noteq> Cocotb)" by (intro exI [of _ xs] exI [of _ "[]"]) simp
    qed
    with True show ?thesis by (auto simp add: last_cocotb_source_snoc)
  next
    case False
    have "(\<exists>pre post. xs @ [x] = pre @ s # post \<and> src_type s = Cocotb \<and>
        (\<forall>y\<in>set post. src_type y \<noteq> Cocotb)) \<longleftrightarrow>
       (\<exists>pre post. xs = pre @ s # post \<and> src_type s = Cocotb \<and>
        (\<forall>y\<in>set post. src_type y \<noteq> Cocotb))"
    proof
      assume "\<exists>pre post. xs @ [x] = pre @ s # post \<and> src_type s = Cocotb \<and>
        (\<forall>y\<in>set post. src_type y \<noteq> Cocotb)"
      then obtain pre post where p: "xs @ [x] = pre @ s # post" "src_type s = Cocotb"
        "\<forall>y\<in>set post. src_type y \<noteq> Cocotb" by blast
      show "\<exists>pre post. xs = pre @ s # post \<and> src_type s = Cocotb \<and>
        (\<forall>y\<in>set post. src_type y \<noteq> Cocotb)"
      proof (cases post rule: rev_cases)
        case Nil
        with p False show ?thesis by auto
      next
        case (snoc ys y)
        with p have "xs = pre @ s # ys" by simp
        with p snoc show ?thesis by auto
      qed
    next
      assume "\<exists>pre post. xs = pre @ s # post \<and> src_type s = Cocotb \<and>
        (\<forall>y\<in>set post. src_type y \<noteq> Cocotb)"
      then obtain pre post where p: "xs = pre @ s # post" "src_type s = Cocotb"
        "\<forall>y\<in>set post. src_type y \<noteq> Cocotb" by blast
      with False show "\<exists>pre post. xs @ [x] = pre @ s # post \<and> src_type s = Cocotb \<and>
        (\<forall>y\<in>set post. src_type y \<noteq> Cocotb)"
        by (intro exI [of _ pre] exI [of _ "post @ [x]"]) simp
    qed
    with False snoc.IH show ?thesis by (simp add: last_cocotb_source_snoc)
  qed
qed

lemma top_cocotb_source_last:
  "top_cocotb_source d = map_option source_file (last_cocotb_source (tb_sources (tb d)))"
  by (simp add: top_cocotb_source_def sources_of_type_def last_cocotb_source_filter)

lemma py_path_parts:
  "py_path environ c d =
     (case environ ''PYTHONPATH'' of
        None \<Rightarrow> []
      | Some cur \<Rightarrow> if cur = [] then [] else str_split os_pathsep cur) @
     (case cocotb_module c of
        None \<Rightarrow> []
      | Some m \<Rightarrow> if m = [] then [] else [module_path d (str_split CHR ''/'' m)]) @
     (case last_cocotb_source (tb_sources (tb d)) of
        None \<Rightarrow> []
      | Some src \<Rightarrow> [parent (source_file src)])"
  by (simp add: py_path_def Let_def top_cocotb_source_last split: option.splits)

section \<open>Cocotb not requested\<close>

text \<open>
  C9. When cocotb is not requested (\<open>tb.cocotb\<close> is unset), \<open>env\<close> returns the empty table,
  whatever the settings, the process environment and the other fields of the design; the
  design is left as it was.
\<close>

theorem env_without_cocotb:
  "tb_cocotb (tb d) = None \<Longrightarrow> env self environ d = (d, Inr Map.empty)"
  by (simp add: env_def)

theorem env_without_cocotb_witness:
  "tb_cocotb (tb (mk_design (Some ''top'') [tb_v] None None)) = None \<and>
   env default_settings Map.empty (mk_design (Some ''top'') [tb_v] None None) =
     (mk_design (Some ''top'') [tb_v] None None, Inr Map.empty)"
  using env_without_cocotb [of "mk_design (Some ''top'') [tb_v] None None" default_settings Map.empty]
  by (simp add: mk_design_def)

section \<open>Empty testbench sources\<close>

text \<open>
  C4. When cocotb is requested (\<open>tb.cocotb\<close> is set) and \<open>tb.sources\<close> is empty, \<open>env\<close>
  raises its first \<open>ValueError\<close> and returns no table.
\<close>

theorem env_sources_empty:
  "tb_cocotb (tb d) \<noteq> None \<Longrightarrow> tb_sources (tb d) = [] \<Longrightarrow>
   env self environ d = (d, Inl (ValueError sources_empty_msg))"
  by (auto simp add: env_def)

theorem env_sources_empty_witness:
  "tb_cocotb (tb (mk_design (Some ''top'') [] (Some (TopStr ''tb'')) (Some no_cocotb))) \<noteq> None \<and>
   tb_sources (tb (mk_design (Some ''top'') [] (Some (TopStr ''tb'')) (Some no_cocotb))) = [] \<and>
   env default_settings Map.empty (mk_design (Some ''top'') [] (Some (TopStr ''tb'')) (Some no_cocotb)) =
     (mk_design (Some ''top'') [] (Some (TopStr ''tb'')) (Some no_cocotb), Inl (ValueError sources_empty_msg))"
  using env_sources_empty [of "mk_design (Some ''top'') [] (Some (TopStr ''tb'')) (Some no_cocotb)" default_settings Map.empty]
  by (simp add: mk_design_def)

section \<open>Resolution of the toplevel\<close>

text \<open>
  C1, as the code has it. With cocotb requested and \<open>tb.sources\<close> not empty, \<open>env\<close> raises
  its second \<open>ValueError\<close> exactly when \<open>tb.top\<close> and \<open>rtl.top\<close> are both unset, whether
  or not \<open>tb.cocotb.toplevel\<close> is set. Otherwise it returns a table whose \<open>TOPLEVEL\<close>
  follows the precedence of the spec (the explicit toplevel, else the first of \<open>tb.top\<close>,
  else \<open>rtl.top\<close>), and when \<open>tb.top\<close> was unset it has become the one-element sequence
  of \<open>rtl.top\<close>, also when the explicit toplevel is set.
\<close>

theorem env_toplevel_resolution:
  assumes c: "tb_cocotb (tb d) = Some c" and s: "tb_sources (tb d) \<noteq> []"
  shows "(\<not> truthy_top (tb_top (tb d)) \<and> \<not> truthy_str (rtl_top (rtl d)) \<longrightarrow>
            env self environ d = (d, Inl (ValueError (top_missing_msg (name d))))) \<and>
         (truthy_top (tb_top (tb d)) \<or> truthy_str (rtl_top (rtl d)) \<longrightarrow>
            (\<exists>t s. snd (env self environ d) = Inr t \<and>
               toplevel_precedence (cocotb_toplevel c) (tb_top (tb d)) (rtl_top (rtl d)) = Some s \<and>
               t ''TOPLEVEL'' = Some (PyStr s) \<and>
               tb_top (tb (fst (env self environ d))) =
                 (if truthy_top (tb_top (tb d)) then tb_top (tb d)
                  else map_option (\<lambda>r. TopSeq [r]) (rtl_top (rtl d)))))"
proof (intro conjI impI)
  assume "\<not> truthy_top (tb_top (tb d)) \<and> \<not> truthy_str (rtl_top (rtl d))"
  then show "env self environ d = (d, Inl (ValueError (top_missing_msg (name d))))"
    using c s by (simp add: env_fail_top)
next
  assume a: "truthy_top (tb_top (tb d)) \<or> truthy_str (rtl_top (rtl d))"
  let ?p = "toplevel_precedence (cocotb_toplevel c) (tb_top (tb d)) (rtl_top (rtl d))"
  from a obtain v where v: "?p = Some v"
    using toplevel_precedence_Some by blast
  show "\<exists>t s. snd (env self environ d) = Inr t \<and> ?p = Some s \<and>
               t ''TOPLEVEL'' = Some (PyStr s) \<and>
               tb_top (tb (fst (env self environ d))) =
                 (if truthy_top (tb_top (tb d)) then tb_top (tb d)
                  else map_option (\<lambda>r. TopSeq [r]) (rtl_top (rtl d)))"
  proof (cases "truthy_top (tb_top (tb d))")
    case True
    obtain t where "env_table self environ c d = Inr t"
      "t ''TOPLEVEL'' = Some (of_opt_str ?p)"
      using env_table_toplevel [OF True] by blast
    with True v c s show ?thesis
      by (simp add: env_success_top of_opt_str_def)
  next
    case False
    with a obtain r where r: "rtl_top (rtl d) = Some r" "r \<noteq> []"
      by (auto simp add: truthy_str_def split: option.splits)
    let ?d = "d\<lparr>tb := (tb d)\<lparr>tb_top := Some (TopSeq [r])\<rparr>\<rparr>"
    have tt: "truthy_top (tb_top (tb ?d))" by simp
    obtain t where t: "env_table self environ c ?d = Inr t"
      "t ''TOPLEVEL'' = Some (of_opt_str (toplevel_precedence (cocotb_toplevel c) (tb_top (tb ?d)) (Some r)))"
      using env_table_toplevel [OF tt] by blast
    have "toplevel_precedence (cocotb_toplevel c) (tb_top (tb ?d)) (Some r) = ?p"
      using False r by (simp add: toplevel_precedence_fallback)
    with t v False r c s show ?thesis
      by (simp add: env_success_fallback of_opt_str_def)
  qed
qed

theorem env_toplevel_resolution_witness:
  "tb_cocotb (tb rtl_fallback) = Some (no_cocotb\<lparr>cocotb_toplevel := Some ''dut''\<rparr>) \<and>
   tb_sources (tb rtl_fallback) \<noteq> [] \<and>
   truthy_str (rtl_top (rtl rtl_fallback)) \<and>
   tb_top (tb rtl_fallback) = None \<and>
   (case snd (env default_settings Map.empty rtl_fallback) of
      Inl e \<Rightarrow> False
    | Inr t \<Rightarrow> t ''TOPLEVEL'' = Some (PyStr ''dut'')) \<and>
   tb_top (tb (fst (env default_settings Map.empty rtl_fallback))) = Some (TopSeq [''top''])"
  using env_toplevel_resolution [of rtl_fallback "no_cocotb\<lparr>cocotb_toplevel := Some ''dut''\<rparr>"
      default_settings Map.empty]
  by (auto simp add: rtl_fallback_def mk_design_def no_cocotb_def toplevel_precedence_def
      truthy_str_def tb_v_def)

text \<open>
  C1 as stated fails: a design whose only toplevel is the explicit \<open>tb.cocotb.toplevel\<close>
  has a toplevel by the precedence of the spec, and \<open>env\<close> raises on it, because the check
  of \<open>tb.top\<close> and \<open>rtl.top\<close> comes before \<open>tb.cocotb.toplevel\<close> is read.
\<close>

theorem env_explicit_toplevel_counterexample:
  "tb_cocotb (tb dut_only) = Some (no_cocotb\<lparr>cocotb_toplevel := Some ''dut''\<rparr>) \<and>
   tb_sources (tb dut_only) \<noteq> [] \<and>
   toplevel_precedence (Some ''dut'') (tb_top (tb dut_only)) (rtl_top (rtl dut_only)) = Some ''dut'' \<and>
   env default_settings Map.empty dut_only = (dut_only, Inl (ValueError (top_missing_msg ''d'')))"
  by (simp add: dut_only_def mk_design_def no_cocotb_def toplevel_precedence_def truthy_str_def
      env_def ensure_tb_top_def tb_v_def)

section \<open>The module and its directory\<close>

text \<open>
  C6. When \<open>tb.cocotb.module\<close> is set and \<open>env\<close> returns a table, \<open>MODULE\<close> is the last
  segment of the module string split on \<open>/\<close>, and the search path that \<open>PYTHONPATH\<close> joins
  contains the module's directory: with more than one segment, the segments before the
  last joined with the platform separator, taken relative to \<open>root_path\<close> unless absolute;
  with a single segment, \<open>root_path\<close> itself. With more than one segment, the directory
  portion, the separator and the module name make up the module string again. The example
  of the spec, module \<open>pkg/mod\<close> under root \<open>/r\<close>, follows the theorem.
\<close>

theorem env_module_split:
  assumes c: "tb_cocotb (tb d) = Some c" and m: "cocotb_module c = Some m" "m \<noteq> []"
    and e: "env self environ d = (d', Inr t)"
  shows "t ''MODULE'' = Some (PyStr (last (str_split CHR ''/'' m))) \<and>
         t ''PYTHONPATH'' = Some (PyStr (str_join [os_pathsep] (py_path environ c d))) \<and>
         (if length (str_split CHR ''/'' m) > 1
          then (if isabs (str_join [os_sep] (butlast (str_split CHR ''/'' m)))
                then str_join [os_sep] (butlast (str_split CHR ''/'' m))
                else path_join (root_path d) (str_join [os_sep] (butlast (str_split CHR ''/'' m))))
          else root_path d) \<in> set (py_path environ c d) \<and>
         (length (str_split CHR ''/'' m) > 1 \<longrightarrow>
            str_join [os_sep] (butlast (str_split CHR ''/'' m)) @ [os_sep] @
              last (str_split CHR ''/'' m) = m)"
proof -
  have cm: "coco_module c d = Some (last (str_split CHR ''/'' m))"
    using m by (simp add: coco_module_def truthy_str_def)
  have mp: "module_path d (str_split CHR ''/'' m) \<in> set (py_path environ c d)"
    using m by (rule module_path_in_py_path)
  have dn: "length (str_split CHR ''/'' m) > 1 \<longrightarrow>
            str_join [os_sep] (butlast (str_split CHR ''/'' m)) @ [os_sep] @
              last (str_split CHR ''/'' m) = m"
    unfolding os_sep_def by (rule impI) (rule str_split_dir_name)
  from env_Inr_table [OF e c] cm have
    "t ''MODULE'' = Some (PyStr (last (str_split CHR ''/'' m)))"
    "t ''PYTHONPATH'' = Some (PyStr (str_join [os_pathsep] (py_path environ c d)))"
    by (simp_all add: of_opt_str_def)
  moreover have
    "(if length (str_split CHR ''/'' m) > 1
      then (if isabs (str_join [os_sep] (butlast (str_split CHR ''/'' m)))
            then str_join [os_sep] (butlast (str_split CHR ''/'' m))
            else path_join (root_path d) (str_join [os_sep] (butlast (str_split CHR ''/'' m))))
      else root_path d) = module_path d (str_split CHR ''/'' m)"
    by (simp add: module_path_def Let_def)
  ultimately show ?thesis using dn mp by simp
qed

theorem env_module_split_witness:
  "tb_cocotb (tb pkg_mod_design) = Some pkg_mod \<and>
   cocotb_module pkg_mod = Some ''pkg/mod'' \<and>
   root_path pkg_mod_design = ''/r'' \<and>
   env default_settings Map.empty pkg_mod_design =
     (mk_design (Some ''top'') [test_a_py, tb_v, test_b_py] (Some (TopSeq [''top'']))
        (Some pkg_mod),
      Inr pkg_mod_table) \<and>
   pkg_mod_table ''MODULE'' = Some (PyStr ''mod'') \<and>
   ''/r/pkg'' \<in> set (py_path Map.empty pkg_mod pkg_mod_design)"
proof -
  have e: "env default_settings Map.empty pkg_mod_design =
     (mk_design (Some ''top'') [test_a_py, tb_v, test_b_py] (Some (TopSeq [''top'']))
        (Some pkg_mod),
      Inr pkg_mod_table)"
    by (simp add: pkg_mod_design_def pkg_mod_def mk_design_def no_cocotb_def default_settings_def
        env_def ensure_tb_top_def env_table_def toplevel_def truthy_str_def coco_module_def
        py_path_def module_path_def top_cocotb_source_def sources_of_type_def
        test_a_py_def tb_v_def test_b_py_def isabs_def path_join_def os_sep_def os_pathsep_def
        of_opt_str_def Let_def pkg_mod_table_def)
  have c: "tb_cocotb (tb pkg_mod_design) = Some pkg_mod"
    by (simp add: pkg_mod_design_def mk_design_def)
  have m: "cocotb_module pkg_mod = Some ''pkg/mod''" "''pkg/mod'' \<noteq> []"
    by (simp_all add: pkg_mod_def)
  have r: "root_path pkg_mod_design = ''/r''"
    by (simp add: pkg_mod_design_def mk_design_def)
  from env_module_split [OF c m e] r
  have "pkg_mod_table ''MODULE'' = Some (PyStr ''mod'')"
    and "''/r/pkg'' \<in> set (py_path Map.empty pkg_mod pkg_mod_design)"
    by (simp_all add: isabs_def path_join_def os_sep_def)
  with c m r e show ?thesis by blast
qed

section \<open>The order of the search path\<close>

text \<open>
  C7. When \<open>env\<close> returns a table, \<open>PYTHONPATH\<close> is the join, with the platform's path
  separator, of: the entries of the process's \<open>PYTHONPATH\<close> split on that separator (none
  when it is unset or empty), then the module's directory when \<open>tb.cocotb.module\<close> is set,
  then the directory of the top cocotb source when there is one, whether or not the module
  is set. The value begins with the process's \<open>PYTHONPATH\<close> as it was. When the module is
  unset and there is a top cocotb source, \<open>MODULE\<close> is the stem of its file name.
\<close>

theorem env_pythonpath_order:
  assumes c: "tb_cocotb (tb d) = Some c" and e: "env self environ d = (d', Inr t)"
  shows "t ''PYTHONPATH'' = Some (PyStr (str_join [os_pathsep]
           ((case environ ''PYTHONPATH'' of
               None \<Rightarrow> []
             | Some cur \<Rightarrow> if cur = [] then [] else str_split os_pathsep cur) @
            (case cocotb_module c of
               None \<Rightarrow> []
             | Some m \<Rightarrow> if m = [] then [] else [module_path d (str_split CHR ''/'' m)]) @
            (case last_cocotb_source (tb_sources (tb d)) of
               None \<Rightarrow> []
             | Some src \<Rightarrow> [parent (source_file src)])))) \<and>
         (\<forall>cur. environ ''PYTHONPATH'' = Some cur \<longrightarrow>
            (\<exists>rest. t ''PYTHONPATH'' = Some (PyStr (cur @ rest)))) \<and>
         (\<forall>src. \<not> truthy_str (cocotb_module c) \<longrightarrow>
            last_cocotb_source (tb_sources (tb d)) = Some src \<longrightarrow>
            t ''MODULE'' = Some (PyStr (stem (source_file src))))"
proof (intro conjI allI impI)
  from env_Inr_table [OF e c]
  have m: "t ''MODULE'' = Some (of_opt_str (coco_module c d))"
    and p: "t ''PYTHONPATH'' = Some (PyStr (str_join [os_pathsep] (py_path environ c d)))"
    by simp_all
  from p show pp: "t ''PYTHONPATH'' = Some (PyStr (str_join [os_pathsep]
           ((case environ ''PYTHONPATH'' of
               None \<Rightarrow> []
             | Some cur \<Rightarrow> if cur = [] then [] else str_split os_pathsep cur) @
            (case cocotb_module c of
               None \<Rightarrow> []
             | Some m \<Rightarrow> if m = [] then [] else [module_path d (str_split CHR ''/'' m)]) @
            (case last_cocotb_source (tb_sources (tb d)) of
               None \<Rightarrow> []
             | Some src \<Rightarrow> [parent (source_file src)]))))"
    by (simp only: py_path_parts)
  {
    fix cur assume cur: "environ ''PYTHONPATH'' = Some cur"
    show "\<exists>rest. t ''PYTHONPATH'' = Some (PyStr (cur @ rest))"
    proof (cases "cur = []")
      case True
      with p show ?thesis by simp
    next
      case False
      with pp cur str_join_split_prefix [OF False, of os_pathsep] show ?thesis
        by (simp split: option.splits)
    qed
  }
  {
    fix src assume "\<not> truthy_str (cocotb_module c)"
      "last_cocotb_source (tb_sources (tb d)) = Some src"
    then have "coco_module c d = Some (stem (source_file src))"
      by (simp add: coco_module_def top_cocotb_source_last)
    with m show "t ''MODULE'' = Some (PyStr (stem (source_file src)))"
      by (simp add: of_opt_str_def)
  }
qed

theorem env_pythonpath_order_witness:
  "tb_cocotb (tb stem_design) = Some no_cocotb \<and>
   env default_settings [''PYTHONPATH'' \<mapsto> ''/a:/b''] stem_design =
     (mk_design (Some ''top'') [test_a_py, tb_v, test_b_py] (Some (TopSeq [''top'']))
        (Some no_cocotb),
      Inr stem_table) \<and>
   \<not> truthy_str (cocotb_module no_cocotb) \<and>
   last_cocotb_source (tb_sources (tb stem_design)) = Some test_b_py \<and>
   stem_table ''PYTHONPATH'' = Some (PyStr ''/a:/b:/r/cocotb'') \<and>
   stem_table ''MODULE'' = Some (PyStr ''test_b'')"
proof -
  have e: "env default_settings [''PYTHONPATH'' \<mapsto> ''/a:/b''] stem_design =
     (mk_design (Some ''top'') [test_a_py, tb_v, test_b_py] (Some (TopSeq [''top'']))
        (Some no_cocotb),
      Inr stem_table)"
    by (simp add: stem_design_def mk_design_def no_cocotb_def default_settings_def
        env_def ensure_tb_top_def env_table_def toplevel_def truthy_str_def coco_module_def
        py_path_def module_path_def top_cocotb_source_def sources_of_type_def
        test_a_py_def tb_v_def test_b_py_def isabs_def path_join_def os_sep_def os_pathsep_def
        of_opt_str_def Let_def stem_table_def)
  have c: "tb_cocotb (tb stem_design) = Some no_cocotb"
    by (simp add: stem_design_def mk_design_def)
  have m: "\<not> truthy_str (cocotb_module no_cocotb)" "cocotb_module no_cocotb = None"
    by (simp_all add: no_cocotb_def truthy_str_def)
  have l: "last_cocotb_source (tb_sources (tb stem_design)) = Some test_b_py"
    by (simp add: last_cocotb_source_def stem_design_def mk_design_def test_a_py_def tb_v_def
        test_b_py_def)
  from env_pythonpath_order [OF c e] m l
  have "stem_table ''PYTHONPATH'' = Some (PyStr ''/a:/b:/r/cocotb'')"
    and "stem_table ''MODULE'' = Some (PyStr ''test_b'')"
    by (simp_all add: os_pathsep_def test_b_py_def)
  with c m l e show ?thesis by blast
qed

section \<open>What env changes\<close>

text \<open>
  C8, as the code has it. The design after \<open>env\<close> is the design before it, except that
  \<open>tb.top\<close> has become the one-element sequence of \<open>rtl.top\<close> when cocotb is requested,
  \<open>tb.sources\<close> is not empty, \<open>tb.top\<close> was unset and \<open>rtl.top\<close> is set. All other
  fields are unchanged, and a design whose \<open>tb.top\<close> is set is unchanged as a whole. The
  settings and the process environment are arguments that \<open>env\<close> only reads.
\<close>

theorem env_frame:
  "fst (env self environ d) =
     (if tb_cocotb (tb d) \<noteq> None \<and> tb_sources (tb d) \<noteq> [] \<and>
         \<not> truthy_top (tb_top (tb d)) \<and> truthy_str (rtl_top (rtl d))
      then d\<lparr>tb := (tb d)\<lparr>tb_top := map_option (\<lambda>r. TopSeq [r]) (rtl_top (rtl d))\<rparr>\<rparr>
      else d) \<and>
   name (fst (env self environ d)) = name d \<and>
   root_path (fst (env self environ d)) = root_path d \<and>
   rtl (fst (env self environ d)) = rtl d \<and>
   tb_sources (tb (fst (env self environ d))) = tb_sources (tb d) \<and>
   tb_cocotb (tb (fst (env self environ d))) = tb_cocotb (tb d) \<and>
   (truthy_top (tb_top (tb d)) \<longrightarrow> fst (env self environ d) = d)"
  by (simp add: env_fst)

theorem env_frame_witness:
  "truthy_top (tb_top (tb (mk_design (Some ''top'') [tb_v] (Some (TopStr ''tb'')) (Some no_cocotb)))) \<and>
   fst (env default_settings Map.empty (mk_design (Some ''top'') [tb_v] (Some (TopStr ''tb'')) (Some no_cocotb))) =
     mk_design (Some ''top'') [tb_v] (Some (TopStr ''tb'')) (Some no_cocotb) \<and>
   fst (env default_settings Map.empty rtl_only) =
     mk_design (Some ''top'') [tb_v] (Some (TopSeq [''top''])) (Some no_cocotb)"
  using env_frame [of default_settings Map.empty "mk_design (Some ''top'') [tb_v] (Some (TopStr ''tb'')) (Some no_cocotb)"]
    env_frame [of default_settings Map.empty rtl_only]
  by (simp add: rtl_only_def mk_design_def truthy_str_def)

text \<open>
  C8 as stated fails: on a design with \<open>rtl.top\<close> set and \<open>tb.top\<close> unset, the call
  assigns to \<open>tb.top\<close>.
\<close>

theorem env_writes_tb_top_counterexample:
  "tb_top (tb rtl_only) = None \<and>
   tb_top (tb (fst (env default_settings Map.empty rtl_only))) = Some (TopSeq [''top''])"
  by (simp add: rtl_only_def mk_design_def no_cocotb_def env_def ensure_tb_top_def tb_v_def)

section \<open>No module and no cocotb source\<close>

text \<open>
  C10, as the code has it. When cocotb is requested, \<open>tb.cocotb.module\<close> is unset and no
  entry of \<open>tb.sources\<close> has the cocotb type, and moreover \<open>tb.sources\<close> is not empty
  and \<open>tb.top\<close> or \<open>rtl.top\<close> is set, then \<open>env\<close> returns a table, and its \<open>MODULE\<close>
  entry is \<open>None\<close>, not a string.
\<close>

theorem env_module_none:
  assumes c: "tb_cocotb (tb d) = Some c" and m: "\<not> truthy_str (cocotb_module c)"
    and n: "\<forall>src\<in>set (tb_sources (tb d)). src_type src \<noteq> Cocotb"
    and s: "tb_sources (tb d) \<noteq> []"
    and a: "truthy_top (tb_top (tb d)) \<or> truthy_str (rtl_top (rtl d))"
  shows "\<exists>t. snd (env self environ d) = Inr t \<and> t ''MODULE'' = Some PyNone"
proof -
  from env_succeeds [OF c s a] obtain t where t: "snd (env self environ d) = Inr t" by blast
  then have e: "env self environ d = (fst (env self environ d), Inr t)"
    by (metis prod.collapse)
  from n have "filter (\<lambda>src. src_type src = Cocotb) (tb_sources (tb d)) = []"
    by (simp add: filter_empty_conv)
  then have "top_cocotb_source d = None"
    by (simp add: top_cocotb_source_def sources_of_type_def)
  with m have "coco_module c d = None" by (simp add: coco_module_def)
  with env_Inr_table [OF e c] t show ?thesis by (simp add: of_opt_str_def)
qed

theorem env_module_none_witness:
  "tb_cocotb (tb rtl_only) = Some no_cocotb \<and>
   \<not> truthy_str (cocotb_module no_cocotb) \<and>
   filter (\<lambda>src. src_type src = Cocotb) (tb_sources (tb rtl_only)) = [] \<and>
   tb_sources (tb rtl_only) \<noteq> [] \<and>
   truthy_str (rtl_top (rtl rtl_only)) \<and>
   (case snd (env default_settings Map.empty rtl_only) of
      Inl e \<Rightarrow> False
    | Inr t \<Rightarrow> t ''MODULE'' = Some PyNone)"
  using env_module_none [of rtl_only no_cocotb default_settings Map.empty]
  by (auto simp add: rtl_only_def mk_design_def no_cocotb_def truthy_str_def tb_v_def)

text \<open>
  C10 as stated fails: a design with cocotb requested, no module and no cocotb source,
  in which neither \<open>tb.top\<close> nor \<open>rtl.top\<close> is set, makes \<open>env\<close> raise.
\<close>

theorem env_module_none_counterexample:
  "tb_cocotb (tb no_top) = Some no_cocotb \<and>
   cocotb_module no_cocotb = None \<and>
   filter (\<lambda>src. src_type src = Cocotb) (tb_sources (tb no_top)) = [] \<and>
   env default_settings Map.empty no_top = (no_top, Inl (ValueError (top_missing_msg ''d'')))"
  by (simp add: no_top_def mk_design_def no_cocotb_def env_def ensure_tb_top_def tb_v_def)

section \<open>Summary of the report\<close>

text \<open>The key \<open>success\<close> is none of the five prefixed keys, whatever the prefix.\<close>

lemma success_key_tests: "''success'' \<noteq> p @ ''tests''"
proof
  assume "''success'' = p @ ''tests''"
  then have "rev ''success'' = rev (p @ ''tests'')" by (rule arg_cong)
  then show False by simp
qed

lemma success_key_errors: "''success'' \<noteq> p @ ''errors''"
proof
  assume "''success'' = p @ ''errors''"
  then have "rev ''success'' = rev (p @ ''errors'')" by (rule arg_cong)
  then show False by simp
qed

lemma success_key_failures: "''success'' \<noteq> p @ ''failures''"
proof
  assume "''success'' = p @ ''failures''"
  then have "rev ''success'' = rev (p @ ''failures'')" by (rule arg_cong)
  then show False by simp
qed

lemma success_key_skipped: "''success'' \<noteq> p @ ''skipped''"
proof
  assume "''success'' = p @ ''skipped''"
  then have "rev ''success'' = rev (p @ ''skipped'')" by (rule arg_cong)
  then show False by simp
qed

lemma success_key_time: "''success'' \<noteq> p @ ''time''"
proof
  assume "''success'' = p @ ''time''"
  then have "rev ''success'' = rev (p @ ''time'')" by (rule arg_cong)
  then show False by simp
qed

lemmas success_key = success_key_tests success_key_errors success_key_failures
  success_key_skipped success_key_time
  success_key_tests [symmetric] success_key_errors [symmetric] success_key_failures [symmetric]
  success_key_skipped [symmetric] success_key_time [symmetric]

lemma add_results_snd:
  "snd (add_results xml fr p) = (\<not> (tests xml = 0 \<or> errors xml \<noteq> 0 \<or> failures xml \<noteq> 0))"
  by (simp add: add_results_def Let_def)

lemma add_results_counters:
  "fst (add_results xml fr p) (p @ ''tests'') = Some (PyInt (tests xml))"
  "fst (add_results xml fr p) (p @ ''errors'') = Some (PyInt (errors xml))"
  "fst (add_results xml fr p) (p @ ''failures'') = Some (PyInt (failures xml))"
  "fst (add_results xml fr p) (p @ ''skipped'') = Some (PyInt (skipped xml))"
  "fst (add_results xml fr p) (p @ ''time'') = Some (PyFloat (time xml))"
  by (simp_all add: add_results_def Let_def success_key)

lemma add_results_success_key:
  "fst (add_results xml fr p) ''success'' =
     (if snd (add_results xml fr p) then fr ''success'' else Some (PyBool False))"
  by (simp add: add_results_def Let_def success_key)

lemma add_results_other_keys:
  "k \<notin> {p @ ''tests'', p @ ''errors'', p @ ''failures'', p @ ''skipped'', p @ ''time'',
         ''success''} \<Longrightarrow> fst (add_results xml fr p) k = fr k"
  by (simp add: add_results_def Let_def)

lemma add_results_suites: "add_results (xml\<lparr>suites := ss\<rparr>) fr p = add_results xml fr p"
  by (simp add: add_results_def)

text \<open>
  C2, as the code has it. For every report and prefix \<open>p\<close>, \<open>add_results\<close> stores the
  report's own counters \<open>tests\<close>, \<open>errors\<close>, \<open>failures\<close>, \<open>skipped\<close> and \<open>time\<close> under the keys
  \<open>p\<close> followed by their names, whatever the suites and their cases hold. The value
  returned is true unless \<open>tests\<close> is 0 or \<open>errors\<close> or \<open>failures\<close> is not 0; when \<open>errors\<close>
  and \<open>failures\<close> are not negative, that is: unless \<open>tests\<close> is 0 or \<open>errors\<close> or \<open>failures\<close>
  is positive. When the value is false the key \<open>success\<close> is set to false; when it is true
  that key is not written, so it is absent from a dictionary that was empty. No other key
  is touched.
\<close>

theorem add_results_summary:
  "fst (add_results xml fr p) (p @ ''tests'') = Some (PyInt (tests xml)) \<and>
   fst (add_results xml fr p) (p @ ''errors'') = Some (PyInt (errors xml)) \<and>
   fst (add_results xml fr p) (p @ ''failures'') = Some (PyInt (failures xml)) \<and>
   fst (add_results xml fr p) (p @ ''skipped'') = Some (PyInt (skipped xml)) \<and>
   fst (add_results xml fr p) (p @ ''time'') = Some (PyFloat (time xml)) \<and>
   add_results (xml\<lparr>suites := ss\<rparr>) fr p = add_results xml fr p \<and>
   snd (add_results xml fr p) =
     (\<not> (tests xml = 0 \<or> errors xml \<noteq> 0 \<or> failures xml \<noteq> 0)) \<and>
   (0 \<le> errors xml \<and> 0 \<le> failures xml \<longrightarrow>
      snd (add_results xml fr p) =
        (\<not> (tests xml = 0 \<or> errors xml > 0 \<or> failures xml > 0))) \<and>
   (\<not> snd (add_results xml fr p) \<longrightarrow>
      fst (add_results xml fr p) ''success'' = Some (PyBool False)) \<and>
   (snd (add_results xml fr p) \<longrightarrow>
      fst (add_results xml fr p) ''success'' = fr ''success'' \<and>
      fst (add_results xml Map.empty p) ''success'' = None) \<and>
   (\<forall>k. k \<notin> {p @ ''tests'', p @ ''errors'', p @ ''failures'', p @ ''skipped'', p @ ''time'',
              ''success''} \<longrightarrow> fst (add_results xml fr p) k = fr k)"
proof -
  have e: "snd (add_results xml Map.empty p) = snd (add_results xml fr p)"
    by (simp only: add_results_snd)
  have 0: "0 \<le> errors xml \<and> 0 \<le> failures xml \<longrightarrow>
             snd (add_results xml fr p) =
               (\<not> (tests xml = 0 \<or> errors xml > 0 \<or> failures xml > 0))"
    by (auto simp add: add_results_snd)
  have 1: "snd (add_results xml fr p) \<longrightarrow>
             fst (add_results xml fr p) ''success'' = fr ''success'' \<and>
             fst (add_results xml Map.empty p) ''success'' = None"
    by (simp add: add_results_success_key e)
  have 2: "\<not> snd (add_results xml fr p) \<longrightarrow>
             fst (add_results xml fr p) ''success'' = Some (PyBool False)"
    by (simp add: add_results_success_key)
  have 3: "\<forall>k. k \<notin> {p @ ''tests'', p @ ''errors'', p @ ''failures'', p @ ''skipped'',
             p @ ''time'', ''success''} \<longrightarrow> fst (add_results xml fr p) k = fr k"
    by (rule allI, rule impI, rule add_results_other_keys)
  from add_results_counters [of xml fr p]
    add_results_suites [where xml = xml and ss = ss and fr = fr and p = p]
    add_results_snd [of xml fr p] 0 1 2 3
  show ?thesis by blast
qed

theorem add_results_summary_witness:
  "0 \<le> errors passing_report \<and> 0 \<le> failures passing_report \<and>
   snd (add_results passing_report Map.empty ''cocotb.'') \<and>
   fst (add_results passing_report Map.empty ''cocotb.'') =
     [''cocotb.tests'' \<mapsto> PyInt 10, ''cocotb.errors'' \<mapsto> PyInt 0,
      ''cocotb.failures'' \<mapsto> PyInt 0, ''cocotb.skipped'' \<mapsto> PyInt 2,
      ''cocotb.time'' \<mapsto> PyFloat (3 / 2)] \<and>
   fst (add_results passing_report Map.empty ''cocotb.'') ''success'' = None \<and>
   0 \<le> errors erroring_report \<and> 0 \<le> failures erroring_report \<and>
   \<not> snd (add_results erroring_report Map.empty ''cocotb.'') \<and>
   fst (add_results erroring_report Map.empty ''cocotb.'') ''cocotb.errors'' = Some (PyInt 1) \<and>
   fst (add_results erroring_report Map.empty ''cocotb.'') ''success'' = Some (PyBool False)"
  using add_results_summary [of passing_report Map.empty "''cocotb.''" "[]"]
    add_results_summary [of erroring_report Map.empty "''cocotb.''" "[]"]
  by (simp add: passing_report_def erroring_report_def add_results_def Let_def)

text \<open>
  C2 as stated fails: the report with one test, \<open>errors\<close> equal to \<open>-1\<close> and no failure has
  none of \<open>tests == 0\<close>, \<open>errors > 0\<close>, \<open>failures > 0\<close>, and \<open>add_results\<close> returns false on
  it and sets \<open>success\<close> to false, because \<open>if xml.errors\<close> holds for every integer but 0.
\<close>

theorem add_results_negative_counterexample:
  "\<not> (tests negative_report = 0 \<or> errors negative_report > 0 \<or> failures negative_report > 0) \<and>
   \<not> snd (add_results negative_report Map.empty ''cocotb.'') \<and>
   fst (add_results negative_report Map.empty ''cocotb.'') ''success'' = Some (PyBool False)"
  by (simp add: negative_report_def add_results_def Let_def)

section \<open>A missing report file\<close>

lemma path_exists_False:
  "path_exists stat p = Inr False \<longleftrightarrow>
     stat p = StatValueError \<or> (\<exists>errno. stat p = StatOSError errno \<and> ignore_error errno)"
  by (auto simp add: path_exists_def split: stat_result.splits)

lemma path_exists_raises:
  "path_exists stat p = Inl e \<longleftrightarrow>
     (\<exists>errno. stat p = StatOSError errno \<and> \<not> ignore_error errno \<and> e = OSError errno)"
  by (auto simp add: path_exists_def split: stat_result.splits)

lemma results_raises:
  "path_exists stat (results_xml self) = Inl e \<Longrightarrow> results stat fromfile self = Inl e"
  by (simp add: results_def)

text \<open>
  C3, as the code has it. When \<open>Path.exists\<close> returns false at \<open>results_xml\<close>, that is when
  \<open>os.stat\<close> fails there with \<open>ENOENT\<close>, \<open>ENOTDIR\<close>, \<open>EBADF\<close> or \<open>ELOOP\<close> or with a
  \<open>ValueError\<close>, loading the report raises nothing and gives the empty report, with no
  suite and \<open>tests\<close> equal to 0; \<open>add_results\<close> on it returns false, stores 0 under the prefix
  followed by \<open>tests\<close>, and sets \<open>success\<close> to false.
\<close>

theorem results_missing_file:
  assumes "path_exists stat (results_xml self) = Inr False"
  shows "results stat fromfile self = Inr JUnitXml \<and>
         suites JUnitXml = [] \<and> tests JUnitXml = 0 \<and>
         (\<exists>fr'. add_results_self stat fromfile self fr p = Inr (fr', False) \<and>
                fr' (p @ ''tests'') = Some (PyInt 0) \<and>
                fr' ''success'' = Some (PyBool False))"
proof -
  have r: "results stat fromfile self = Inr JUnitXml"
    using assms by (simp add: results_def)
  have s: "\<not> snd (add_results JUnitXml fr p)"
    by (simp add: add_results_snd JUnitXml_def)
  have "add_results_self stat fromfile self fr p =
          Inr (fst (add_results JUnitXml fr p), False)"
    using r s by (simp add: add_results_self_def prod_eq_iff)
  moreover have "fst (add_results JUnitXml fr p) (p @ ''tests'') = Some (PyInt 0)"
    by (simp add: add_results_counters JUnitXml_def)
  moreover have "fst (add_results JUnitXml fr p) ''success'' = Some (PyBool False)"
    using s by (simp add: add_results_success_key)
  ultimately show ?thesis using r by (simp add: JUnitXml_def)
qed

theorem results_missing_file_witness:
  "empty_dir_stat (results_xml default_settings) = StatOSError ENOENT \<and>
   path_exists empty_dir_stat (results_xml default_settings) = Inr False \<and>
   results empty_dir_stat no_parser default_settings = Inr JUnitXml \<and>
   add_results_self empty_dir_stat no_parser default_settings Map.empty ''cocotb.'' =
     Inr ([''cocotb.tests'' \<mapsto> PyInt 0, ''cocotb.errors'' \<mapsto> PyInt 0,
           ''cocotb.failures'' \<mapsto> PyInt 0, ''cocotb.skipped'' \<mapsto> PyInt 0,
           ''cocotb.time'' \<mapsto> PyFloat 0, ''success'' \<mapsto> PyBool False], False)"
  using results_missing_file [of empty_dir_stat default_settings no_parser Map.empty "''cocotb.''"]
  by (simp add: empty_dir_stat_def default_settings_def path_exists_def ignore_error_def
      ENOENT_def ENOTDIR_def EBADF_def ELOOP_def add_results_self_def add_results_def Let_def
      JUnitXml_def results_def)

text \<open>
  C3 as stated fails: in a directory without any file, no file exists at a results file
  name of 256 characters, and loading the report raises the \<open>OSError\<close> of \<open>os.stat\<close>,
  \<open>ENAMETOOLONG\<close>, which \<open>Path.exists\<close> does not catch.
\<close>

theorem results_long_name_counterexample:
  "length (results_xml long_name_settings) = 256 \<and>
   empty_dir_stat (results_xml long_name_settings) = StatOSError ENAMETOOLONG \<and>
   results empty_dir_stat no_parser long_name_settings = Inl (OSError ENAMETOOLONG)"
  by (simp add: long_name_settings_def default_settings_def empty_dir_stat_def results_def
      path_exists_def ignore_error_def ENOENT_def ENOTDIR_def EBADF_def ELOOP_def
      ENAMETOOLONG_def)

end
